theory Spec2Isabelle
  imports Complex_Main "HOL-Library.Word"
begin

unbundle bit_operations_syntax

section \<open>JavaScript values\<close>

text \<open>
  The service is an Express application (the third document of \<^verbatim>\<open>scripts/cleanup.sh\<close>).
  Its request bodies are JSON documents, read through ordinary property access. A number is
  an IEEE double: a finite value (kept here as the rational it denotes), an infinity
  (\<^verbatim>\<open>1e999\<close> parses to one) or NaN. \<open>JUndefined\<close> is what reading a missing property gives.
\<close>

datatype jsnum = Fin rat | PosInf | NegInf | NaN

datatype jsval =
    JUndefined
  | JNull
  | JBool bool
  | JNum jsnum
  | JStr string
  | JArr "jsval list"
  | JObj "(string \<times> jsval) list"

text \<open>
  What a \<^verbatim>\<open>throw\<close> carries: the plain objects \<^verbatim>\<open>{status, message, details}\<close> thrown by
  the enrichment and publish steps, or a native \<^verbatim>\<open>TypeError\<close> with its message.
\<close>

datatype thrown =
    Rejection nat string string
  | TypeError string

fun thrown_message :: "thrown \<Rightarrow> string" where
  "thrown_message (Rejection s m d) = m"
| "thrown_message (TypeError m) = m"

text \<open>\<^verbatim>\<open>error.status || fallback\<close>: a missing or zero status is falsy.\<close>

fun thrown_status_or :: "thrown \<Rightarrow> nat \<Rightarrow> nat" where
  "thrown_status_or (Rejection s m d) fallback = (if s = 0 then fallback else s)"
| "thrown_status_or (TypeError m) fallback = fallback"

fun thrown_details :: "thrown \<Rightarrow> jsval" where
  "thrown_details (Rejection s m d) = JStr d"
| "thrown_details (TypeError m) = JUndefined"

fun truthy :: "jsval \<Rightarrow> bool" where
  "truthy JUndefined = False"
| "truthy JNull = False"
| "truthy (JBool b) = b"
| "truthy (JNum n) = (n \<noteq> NaN \<and> n \<noteq> Fin 0)"
| "truthy (JStr s) = (s \<noteq> [])"
| "truthy (JArr xs) = True"
| "truthy (JObj kvs) = True"

fun typeof :: "jsval \<Rightarrow> string" where
  "typeof JUndefined = ''undefined''"
| "typeof JNull = ''object''"
| "typeof (JBool b) = ''boolean''"
| "typeof (JNum n) = ''number''"
| "typeof (JStr s) = ''string''"
| "typeof (JArr xs) = ''object''"
| "typeof (JObj kvs) = ''object''"

fun isArray :: "jsval \<Rightarrow> bool" where
  "isArray (JArr xs) = True"
| "isArray v = False"

fun elements :: "jsval \<Rightarrow> jsval list" where
  "elements (JArr xs) = xs"
| "elements v = []"

text \<open>
  Reading a property \<^verbatim>\<open>o.k\<close> throws a TypeError when \<open>o\<close> is null or undefined and gives
  \<open>field o k\<close> otherwise. The keys the service reads (\<^verbatim>\<open>order_id\<close>, \<^verbatim>\<open>customer_id\<close>,
  \<^verbatim>\<open>items\<close>, \<^verbatim>\<open>order_ts\<close>, \<^verbatim>\<open>sku\<close>, \<^verbatim>\<open>quantity\<close>) are defined by no prototype, so only an
  object's own properties answer; the list of a \<open>JObj\<close> holds them, one entry per key.
\<close>

fun nullish :: "jsval \<Rightarrow> bool" where
  "nullish JUndefined = True"
| "nullish JNull = True"
| "nullish v = False"

fun field :: "jsval \<Rightarrow> string \<Rightarrow> jsval" where
  "field (JObj kvs) k = (case map_of kvs k of None \<Rightarrow> JUndefined | Some v \<Rightarrow> v)"
| "field v k = JUndefined"

definition cannot_read :: "jsval \<Rightarrow> string \<Rightarrow> thrown" where
  "cannot_read v k =
     TypeError (''Cannot read properties of '' @ (if v = JNull then ''null'' else ''undefined'')
       @ '' (reading '' @ [CHR 0x27] @ k @ [CHR 0x27] @ '')'')"

text \<open>\<^verbatim>\<open>n <= 0\<close> on doubles: every comparison with NaN is false.\<close>

fun num_le_zero :: "jsnum \<Rightarrow> bool" where
  "num_le_zero (Fin r) = (r \<le> 0)"
| "num_le_zero NegInf = True"
| "num_le_zero PosInf = False"
| "num_le_zero NaN = False"

fun quantity_le_zero :: "jsval \<Rightarrow> bool" where
  "quantity_le_zero (JNum n) = num_le_zero n"
| "quantity_le_zero v = False"

text \<open>An array index inside a template literal is printed in decimal.\<close>

fun string_of_nat :: "nat \<Rightarrow> string" where
  "string_of_nat n =
     (if n < 10 then [char_of (48 + n)]
      else string_of_nat (n div 10) @ [char_of (48 + n mod 10)])"

fun join_comma :: "string list \<Rightarrow> string" where
  "join_comma [] = []"
| "join_comma [s] = s"
| "join_comma (s # t # ss) = s @ '','' @ join_comma (t # ss)"

declare string_of_nat.simps [simp del]

text \<open>
  String conversion inside a template literal. The printing of a number is the engine's
  (\<^verbatim>\<open>Number.prototype.toString\<close>) and is a parameter. An object is converted through its
  \<^verbatim>\<open>toString\<close> and \<^verbatim>\<open>valueOf\<close>: a parsed document has no callable property of its own, so an
  own \<^verbatim>\<open>toString\<close> hides the inherited one, the inherited or own \<^verbatim>\<open>valueOf\<close> yields no
  primitive, and the conversion throws a TypeError; without an own \<^verbatim>\<open>toString\<close> the inherited
  one prints \<^verbatim>\<open>[object Object]\<close>. An array joins the conversions of its elements (nothing
  for null and undefined), left to right, and throws where one of them throws.
\<close>

fun first_thrown :: "(thrown + 'a) list \<Rightarrow> thrown + 'a list" where
  "first_thrown [] = Inr []"
| "first_thrown (Inl e # rs) = Inl e"
| "first_thrown (Inr x # rs) = (case first_thrown rs of Inl e \<Rightarrow> Inl e | Inr xs \<Rightarrow> Inr (x # xs))"

fun ToString :: "(jsnum \<Rightarrow> string) \<Rightarrow> jsval \<Rightarrow> thrown + string" where
  "ToString f JUndefined = Inr ''undefined''"
| "ToString f JNull = Inr ''null''"
| "ToString f (JBool b) = Inr (if b then ''true'' else ''false'')"
| "ToString f (JNum n) = Inr (f n)"
| "ToString f (JStr s) = Inr s"
| "ToString f (JArr xs) =
     (case first_thrown (map (\<lambda>x. if nullish x then Inr [] else ToString f x) xs) of
        Inl e \<Rightarrow> Inl e
      | Inr ss \<Rightarrow> Inr (join_comma ss))"
| "ToString f (JObj kvs) =
     (if map_of kvs ''toString'' \<noteq> None
      then Inl (TypeError ''Cannot convert object to primitive value'')
      else Inr ''[object Object]'')"

section \<open>The world of one invocation\<close>

text \<open>
  Everything outside the service's own code is a field of the world in which one request
  is handled: the engine's built-ins, the configuration, the clock, the random bytes drawn
  by the identifier generator, the catalog service and the queue.
\<close>

record sqs_attribute =
  StringValue :: jsval
  DataType :: string

record sqs_params =
  QueueUrl :: string
  MessageBody :: string
  MessageAttributes :: "(string \<times> sqs_attribute) list"

record world =
  Date_parse :: "string \<Rightarrow> int option"
  number_to_string :: "jsnum \<Rightarrow> string"
  JSON_stringify :: "jsval \<Rightarrow> string"
  JSON_parse :: "string \<Rightarrow> string + jsval"
  now :: int
  now_ISOString :: string
  CARD_CATALOG_BASE_URL :: string
  QUEUE_URL :: string
  axios_get :: "string \<Rightarrow> string + jsval"
  rng :: "nat \<Rightarrow> 8 word"
  sqs_sendMessage :: "sqs_params \<Rightarrow> string + string"

text \<open>
  \<open>Date_parse w s\<close> is \<open>None\<close> when \<^verbatim>\<open>new Date(s).getTime()\<close> is NaN. \<open>now w\<close> is the clock
  in milliseconds since the epoch, \<open>now_ISOString w\<close> its ISO rendering.
  \<open>axios_get w url\<close> is \<open>Inr data\<close> for a response with body \<open>data\<close> and \<open>Inl msg\<close> when the
  request is rejected (status outside 2xx, timeout, transport error) with message \<open>msg\<close>.
  \<open>sqs_sendMessage w params\<close> is \<open>Inr id\<close>, the queue's MessageId, or \<open>Inl msg\<close>.
\<close>

datatype call = CatalogGet string | SqsSend sqs_params

record response =
  status :: nat
  body :: jsval

text \<open>\<^verbatim>\<open>res.status(s).json(obj)\<close>: a property whose value is undefined is not serialised.\<close>

definition res_json :: "nat \<Rightarrow> (string \<times> jsval) list \<Rightarrow> response" where
  "res_json s kvs = \<lparr>status = s, body = JObj (filter (\<lambda>kv. snd kv \<noteq> JUndefined) kvs)\<rparr>"

section \<open>API keys\<close>

record credential =
  name :: string
  createdAt :: int
  expiresAt :: "int option"

definition VALID_API_KEYS :: "(string \<times> credential) list" where
  "VALID_API_KEYS =
     [(''sk-test-valid-key-123456789'',
         \<lparr>name = ''Test Client'', createdAt = 1735689600000, expiresAt = None\<rparr>),
      (''sk-test-limited-key-987654321'',
         \<lparr>name = ''Limited Client'', createdAt = 1704067200000,
          expiresAt = Some 1772236800000\<rparr>)]"

text \<open>
  \<^verbatim>\<open>VALID_API_KEYS\<close> is an object literal, so \<^verbatim>\<open>VALID_API_KEYS[apiKey]\<close> walks the prototype
  chain: a key that is not an own property but names a member of \<^verbatim>\<open>Object.prototype\<close>
  reads that member, a function or object, which is truthy and has no \<^verbatim>\<open>expiresAt\<close>.
\<close>

definition Object_prototype_keys :: "string list" where
  "Object_prototype_keys =
     [''constructor'', ''__defineGetter__'', ''__defineSetter__'', ''hasOwnProperty'',
      ''__lookupGetter__'', ''__lookupSetter__'', ''isPrototypeOf'', ''propertyIsEnumerable'',
      ''toString'', ''valueOf'', ''__proto__'', ''toLocaleString'']"

datatype key_data = Own credential | Inherited string

definition VALID_API_KEYS_get :: "string \<Rightarrow> key_data option" where
  "VALID_API_KEYS_get apiKey =
     (case map_of VALID_API_KEYS apiKey of
        Some c \<Rightarrow> Some (Own c)
      | None \<Rightarrow> if apiKey \<in> set Object_prototype_keys then Some (Inherited apiKey) else None)"

fun keyData_expiresAt :: "key_data \<Rightarrow> int option" where
  "keyData_expiresAt (Own c) = expiresAt c"
| "keyData_expiresAt (Inherited k) = None"

text \<open>
  The middleware either answers (\<open>Inl\<close>) or calls \<^verbatim>\<open>next()\<close> with the key's data attached
  (\<open>Inr\<close>). The header is absent (\<open>None\<close>) or a string.
\<close>

definition authenticateApiKey :: "world \<Rightarrow> string option \<Rightarrow> response + key_data" where
  "authenticateApiKey w apiKey =
     (if apiKey = None \<or> apiKey = Some [] then
        Inl (res_json 401
          [(''error'', JStr ''Unauthorized''),
           (''details'', JStr ''API key is required. Provide it in the X-API-Key header.'')])
      else
        (case VALID_API_KEYS_get (the apiKey) of
           None \<Rightarrow>
             Inl (res_json 401
               [(''error'', JStr ''Unauthorized''),
                (''details'', JStr ''Invalid API key provided.'')])
         | Some keyData \<Rightarrow>
             (case keyData_expiresAt keyData of
                None \<Rightarrow> Inr keyData
              | Some e \<Rightarrow>
                  if now w > e then
                    Inl (res_json 401
                      [(''error'', JStr ''Unauthorized''),
                       (''details'', JStr ''API key has expired.'')])
                  else Inr keyData)))"

section \<open>Validation\<close>

text \<open>
  The body of \<^verbatim>\<open>payload.items.forEach((item, index) => ...)\<close>: the errors found so far are
  threaded through, as the source pushes onto one array.
\<close>

fun forEach_item :: "jsval list \<Rightarrow> nat \<Rightarrow> string list \<Rightarrow> thrown + string list" where
  "forEach_item [] index errors = Inr errors"
| "forEach_item (item # rest) index errors =
     (if nullish item then Inl (cannot_read item ''sku'')
      else
        let errors1 =
              (if \<not> truthy (field item ''sku'') \<or> typeof (field item ''sku'') \<noteq> ''string''
               then errors @ [''items['' @ string_of_nat index @ ''].sku is required and must be a string'']
               else errors);
            errors2 =
              (if typeof (field item ''quantity'') \<noteq> ''number'' \<or> quantity_le_zero (field item ''quantity'')
               then errors1 @ [''items['' @ string_of_nat index @ ''].quantity must be a number greater than 0'']
               else errors1)
        in forEach_item rest (Suc index) errors2)"

fun string_of :: "jsval \<Rightarrow> string" where
  "string_of (JStr s) = s"
| "string_of v = []"

definition validateOrderPayload :: "world \<Rightarrow> jsval \<Rightarrow> thrown + string list" where
  "validateOrderPayload w payload =
     (if nullish payload then Inl (cannot_read payload ''order_id'')
      else
        let errors0 = [];
            errors1 =
              (if \<not> truthy (field payload ''order_id'') \<or> typeof (field payload ''order_id'') \<noteq> ''string''
               then errors0 @ [''order_id is required and must be a string'']
               else errors0);
            errors2 =
              (if \<not> truthy (field payload ''customer_id'') \<or> typeof (field payload ''customer_id'') \<noteq> ''string''
               then errors1 @ [''customer_id is required and must be a string'']
               else errors1);
            errors3 =
              (if \<not> truthy (field payload ''items'') \<or> \<not> isArray (field payload ''items'')
                  \<or> length (elements (field payload ''items'')) = 0
               then errors2 @ [''items is required and must be a non-empty array'']
               else errors2)
        in
          (case (if truthy (field payload ''items'') \<and> isArray (field payload ''items'')
                 then forEach_item (elements (field payload ''items'')) 0 errors3
                 else Inr errors3) of
             Inl e \<Rightarrow> Inl e
           | Inr errors4 \<Rightarrow>
               Inr (if \<not> truthy (field payload ''order_ts'') \<or> typeof (field payload ''order_ts'') \<noteq> ''string''
                    then errors4 @ [''order_ts is required and must be a valid ISO 8601 timestamp'']
                    else if Date_parse w (string_of (field payload ''order_ts'')) = None
                    then errors4 @ [''order_ts must be a valid ISO 8601 timestamp'']
                    else errors4)))"

section \<open>Enrichment\<close>

text \<open>
  The loop of \<^verbatim>\<open>enrichOrderWithMetadata\<close>, with the array built so far. Beside its result the
  model returns the URLs it requested, in order. Building the URL reads \<^verbatim>\<open>item.sku\<close> and
  converts it to a string; when the read (a null item) or the conversion throws, that
  happens inside the \<^verbatim>\<open>try\<close> before any request, and the \<^verbatim>\<open>catch\<close> block, which builds
  its log line from \<^verbatim>\<open>item.sku\<close> again, throws the same TypeError out of the function.
\<close>

fun enrich_loop :: "world \<Rightarrow> jsval list \<Rightarrow> jsval list \<Rightarrow> (thrown + jsval list) \<times> string list" where
  "enrich_loop w [] enrichedItems = (Inr enrichedItems, [])"
| "enrich_loop w (item # rest) enrichedItems =
     (if nullish item then (Inl (cannot_read item ''sku''), [])
      else
        (case ToString (number_to_string w) (field item ''sku'') of
           Inl error \<Rightarrow> (Inl error, [])
         | Inr sku \<Rightarrow>
             let url = CARD_CATALOG_BASE_URL w @ ''/catalog/sku/'' @ sku
             in
               (case axios_get w url of
                  Inl msg \<Rightarrow>
                    (Inl (Rejection 502 (''Failed to enrich item with SKU '' @ sku) msg), [url])
                | Inr data \<Rightarrow>
                    (let r = enrich_loop w rest
                               (enrichedItems @
                                  [JObj [(''sku'', field item ''sku''),
                                         (''quantity'', field item ''quantity''),
                                         (''metadata'', data)]])
                     in (fst r, url # snd r)))))"

definition enrichOrderWithMetadata :: "world \<Rightarrow> jsval list \<Rightarrow> (thrown + jsval list) \<times> string list" where
  "enrichOrderWithMetadata w items = enrich_loop w items []"

section \<open>Publication\<close>

text \<open>
  Beside its result the model returns the messages handed to \<^verbatim>\<open>sqs.sendMessage\<close>. Anything
  thrown inside the \<^verbatim>\<open>try\<close> is rethrown as the 503 object with the cause's message.
\<close>

definition publish_params :: "world \<Rightarrow> jsval \<Rightarrow> sqs_params" where
  "publish_params w order =
     \<lparr>QueueUrl = QUEUE_URL w,
      MessageBody = JSON_stringify w order,
      MessageAttributes =
        [(''order_id'', \<lparr>StringValue = field order ''order_id'', DataType = ''String''\<rparr>),
         (''customer_id'', \<lparr>StringValue = field order ''customer_id'', DataType = ''String''\<rparr>)]\<rparr>"

definition publishToSQS :: "world \<Rightarrow> jsval \<Rightarrow> (thrown + string) \<times> sqs_params list" where
  "publishToSQS w order =
     (if nullish order then
        (Inl (Rejection 503 ''Failed to publish order to queue''
                (thrown_message (cannot_read order ''order_id''))), [])
      else
        let params = publish_params w order
        in
          (case sqs_sendMessage w params of
             Inl msg \<Rightarrow> (Inl (Rejection 503 ''Failed to publish order to queue'' msg), [params])
           | Inr messageId \<Rightarrow> (Inr messageId, [params])))"

section \<open>Assembly identifiers\<close>

text \<open>
  Modelled from the spec: \<^verbatim>\<open>uuidv4\<close> comes from the \<^verbatim>\<open>uuid\<close> package, which is not part of the
  repository. The spec describes its result as a 128-bit random value rendered in standard
  UUID textual form; the model is the version-4 construction: sixteen random bytes, the
  version and variant bits overwritten, printed as lower-case hexadecimal in groups of
  8-4-4-4-12.
\<close>

definition hexdigit :: "nat \<Rightarrow> char" where
  "hexdigit n = ''0123456789abcdef'' ! n"

definition byteToHex :: "8 word \<Rightarrow> string" where
  "byteToHex b = [hexdigit (unat (drop_bit 4 b)), hexdigit (unat (b AND 0x0f))]"

definition unsafeStringify :: "(nat \<Rightarrow> 8 word) \<Rightarrow> string" where
  "unsafeStringify arr =
     byteToHex (arr 0) @ byteToHex (arr 1) @ byteToHex (arr 2) @ byteToHex (arr 3) @ ''-''
     @ byteToHex (arr 4) @ byteToHex (arr 5) @ ''-''
     @ byteToHex (arr 6) @ byteToHex (arr 7) @ ''-''
     @ byteToHex (arr 8) @ byteToHex (arr 9) @ ''-''
     @ byteToHex (arr 10) @ byteToHex (arr 11) @ byteToHex (arr 12) @ byteToHex (arr 13)
     @ byteToHex (arr 14) @ byteToHex (arr 15)"

definition v4_bytes :: "(nat \<Rightarrow> 8 word) \<Rightarrow> nat \<Rightarrow> 8 word" where
  "v4_bytes rnds =
     (let rnds1 = rnds(6 := (rnds 6 AND 0x0f) OR 0x40);
          rnds2 = rnds1(8 := (rnds1 8 AND 0x3f) OR 0x80)
      in rnds2)"

definition uuidv4 :: "world \<Rightarrow> string" where
  "uuidv4 w = unsafeStringify (v4_bytes (rng w))"

text \<open>
  The textual form, as the repository's own tests check it
  (\<^verbatim>\<open>cypress/e2e/happy-path.cy.js\<close>):
  \<^verbatim>\<open>/^[0-9a-f]{8}-[0-9a-f]{4}-4[0-9a-f]{3}-[89ab][0-9a-f]{3}-[0-9a-f]{12}$/i\<close>.
\<close>

definition is_hex :: "char \<Rightarrow> bool" where
  "is_hex c = (c \<in> set ''0123456789abcdefABCDEF'')"

definition uuidPattern :: "string \<Rightarrow> bool" where
  "uuidPattern s =
     (length s = 36
      \<and> list_all is_hex (take 8 s) \<and> s ! 8 = CHR ''-''
      \<and> list_all is_hex (take 4 (drop 9 s)) \<and> s ! 13 = CHR ''-''
      \<and> s ! 14 = CHR ''4'' \<and> list_all is_hex (take 3 (drop 15 s)) \<and> s ! 18 = CHR ''-''
      \<and> s ! 19 \<in> set ''89abAB'' \<and> list_all is_hex (take 3 (drop 20 s)) \<and> s ! 23 = CHR ''-''
      \<and> list_all is_hex (drop 24 s))"

section \<open>The route\<close>

text \<open>
  The handler of \<^verbatim>\<open>POST /orders/assemble\<close>, on the parsed body. It returns the response and
  the calls made to the catalog and the queue, in order. \<open>enrichedOrder_of\<close> is the object
  the handler builds from the destructured body, the enriched items, the clock and a fresh
  identifier.
\<close>

definition enrichedOrder_of :: "world \<Rightarrow> jsval \<Rightarrow> jsval list \<Rightarrow> jsval" where
  "enrichedOrder_of w reqBody enrichedItems =
     JObj [(''order_id'', field reqBody ''order_id''),
           (''customer_id'', field reqBody ''customer_id''),
           (''items'', JArr enrichedItems),
           (''order_ts'', field reqBody ''order_ts''),
           (''assembled_ts'', JStr (now_ISOString w)),
           (''assembly_id'', JStr (uuidv4 w))]"

definition assemble_handler :: "world \<Rightarrow> jsval \<Rightarrow> response \<times> call list" where
  "assemble_handler w reqBody =
     (case validateOrderPayload w reqBody of
        Inl error \<Rightarrow>
          (res_json 500
             [(''error'', JStr ''Internal server error''),
              (''details'', JStr (thrown_message error))], [])
      | Inr validationErrors \<Rightarrow>
          if length validationErrors > 0 then
            (res_json 400
               [(''error'', JStr ''Validation failed''),
                (''details'', JArr (map JStr validationErrors))], [])
          else
            let order_id = field reqBody ''order_id'';
                items = field reqBody ''items'';
                enriched = enrichOrderWithMetadata w (elements items);
                gets = map CatalogGet (snd enriched)
            in
              (case fst enriched of
                 Inl error \<Rightarrow>
                   (res_json (thrown_status_or error 502)
                      [(''error'', JStr (thrown_message error)),
                       (''details'', thrown_details error)], gets)
               | Inr enrichedItems \<Rightarrow>
                   let enrichedOrder = enrichedOrder_of w reqBody enrichedItems;
                       published = publishToSQS w enrichedOrder;
                       calls = gets @ map SqsSend (snd published)
                   in
                     (case fst published of
                        Inl error \<Rightarrow>
                          (res_json (thrown_status_or error 503)
                             [(''error'', JStr (thrown_message error)),
                              (''details'', thrown_details error)], calls)
                      | Inr messageId \<Rightarrow>
                          (res_json 200
                             [(''success'', JBool True),
                              (''order_id'', order_id),
                              (''assembly_id'', field enrichedOrder ''assembly_id''),
                              (''message'', JStr ''Order assembled and published successfully''),
                              (''sqs_message_id'', JStr messageId)], calls))))"

record request =
  x_api_key :: "string option"
  reqBody :: jsval

text \<open>\<^verbatim>\<open>app.post('/orders/assemble', authenticateApiKey, handler)\<close>.\<close>

definition post_orders_assemble :: "world \<Rightarrow> request \<Rightarrow> response \<times> call list" where
  "post_orders_assemble w req =
     (case authenticateApiKey w (x_api_key req) of
        Inl res \<Rightarrow> (res, [])
      | Inr keyData \<Rightarrow> assemble_handler w (reqBody req))"

section \<open>The application\<close>

text \<open>
  \<^verbatim>\<open>app.use(express.json())\<close> runs before the route. It parses only a body that the
  request declares as JSON (\<^verbatim>\<open>Content-Type: application/json\<close>, the field \<open>declared_json\<close>);
  any other request, and one whose body is empty, goes on to the route with the empty
  object as \<^verbatim>\<open>req.body\<close>. When it cannot parse the body of a request declared as JSON it
  passes its error to \<^verbatim>\<open>next\<close>, Express skips the route, and the error-handling middleware
  registered last answers. The parser is the world's \<open>JSON_parse\<close>: \<open>Inl\<close> its error
  message, \<open>Inr\<close> the document.
\<close>

record raw_request =
  raw_x_api_key :: "string option"
  declared_json :: bool
  raw_body :: string

definition error_middleware :: "string \<Rightarrow> response" where
  "error_middleware err_message =
     res_json 500 [(''error'', JStr ''Internal server error''), (''details'', JStr err_message)]"

definition app_post_orders_assemble :: "world \<Rightarrow> raw_request \<Rightarrow> response \<times> call list" where
  "app_post_orders_assemble w raw =
     (if \<not> declared_json raw \<or> raw_body raw = [] then
        post_orders_assemble w \<lparr>x_api_key = raw_x_api_key raw, reqBody = JObj []\<rparr>
      else
        (case JSON_parse w (raw_body raw) of
           Inl err_message \<Rightarrow> (error_middleware err_message, [])
         | Inr parsed \<Rightarrow>
             post_orders_assemble w \<lparr>x_api_key = raw_x_api_key raw, reqBody = parsed\<rparr>))"

section \<open>Notions used in the statements\<close>

text \<open>
  The conditions and messages of the validator, named one by one so that the theorems can
  speak about a single rule. \<open>all_errors\<close> is the list the validator is proved to return.
\<close>

definition quantity_message :: "nat \<Rightarrow> string" where
  "quantity_message index = ''items['' @ string_of_nat index @ ''].quantity must be a number greater than 0''"

definition sku_message :: "nat \<Rightarrow> string" where
  "sku_message index = ''items['' @ string_of_nat index @ ''].sku is required and must be a string''"

definition sku_bad :: "jsval \<Rightarrow> bool" where
  "sku_bad item = (\<not> truthy (field item ''sku'') \<or> typeof (field item ''sku'') \<noteq> ''string'')"

definition quantity_bad :: "jsval \<Rightarrow> bool" where
  "quantity_bad item =
     (typeof (field item ''quantity'') \<noteq> ''number'' \<or> quantity_le_zero (field item ''quantity''))"

definition item_errors :: "nat \<Rightarrow> jsval \<Rightarrow> string list" where
  "item_errors index item =
     (if sku_bad item then [sku_message index] else [])
     @ (if quantity_bad item then [quantity_message index] else [])"

fun items_errors :: "nat \<Rightarrow> jsval list \<Rightarrow> string list" where
  "items_errors index [] = []"
| "items_errors index (item # rest) = item_errors index item @ items_errors (Suc index) rest"

definition order_id_bad :: "jsval \<Rightarrow> bool" where
  "order_id_bad payload =
     (\<not> truthy (field payload ''order_id'') \<or> typeof (field payload ''order_id'') \<noteq> ''string'')"

definition customer_id_bad :: "jsval \<Rightarrow> bool" where
  "customer_id_bad payload =
     (\<not> truthy (field payload ''customer_id'') \<or> typeof (field payload ''customer_id'') \<noteq> ''string'')"

definition items_bad :: "jsval \<Rightarrow> bool" where
  "items_bad payload =
     (\<not> truthy (field payload ''items'') \<or> \<not> isArray (field payload ''items'')
        \<or> length (elements (field payload ''items'')) = 0)"

definition order_ts_errors :: "world \<Rightarrow> jsval \<Rightarrow> string list" where
  "order_ts_errors w payload =
     (if \<not> truthy (field payload ''order_ts'') \<or> typeof (field payload ''order_ts'') \<noteq> ''string''
      then [''order_ts is required and must be a valid ISO 8601 timestamp'']
      else if Date_parse w (string_of (field payload ''order_ts'')) = None
      then [''order_ts must be a valid ISO 8601 timestamp'']
      else [])"

definition all_errors :: "world \<Rightarrow> jsval \<Rightarrow> string list" where
  "all_errors w payload =
     (if order_id_bad payload then [''order_id is required and must be a string''] else [])
     @ (if customer_id_bad payload then [''customer_id is required and must be a string''] else [])
     @ (if items_bad payload then [''items is required and must be a non-empty array''] else [])
     @ items_errors 0 (elements (field payload ''items''))
     @ order_ts_errors w payload"

text \<open>
  \<open>sku_text\<close> is the conversion of an item's sku inside the URL template, and \<open>catalog_url\<close>
  the URL the loop requests for an item whose sku converts (for any other item no request
  is made). The lookup of an item succeeds when its sku converts and the request for its
  URL is answered; \<open>enriched_item\<close> is the object the loop then pushes for it. \<open>hexval\<close> reads
  a lower-case hexadecimal digit back.
\<close>

definition sku_text :: "world \<Rightarrow> jsval \<Rightarrow> thrown + string" where
  "sku_text w item = ToString (number_to_string w) (field item ''sku'')"

definition catalog_url :: "world \<Rightarrow> jsval \<Rightarrow> string" where
  "catalog_url w item =
     CARD_CATALOG_BASE_URL w @ ''/catalog/sku/''
       @ (case sku_text w item of Inr sku \<Rightarrow> sku | Inl error \<Rightarrow> [])"

definition lookup_ok :: "world \<Rightarrow> jsval \<Rightarrow> bool" where
  "lookup_ok w item =
     (case sku_text w item of
        Inl error \<Rightarrow> False
      | Inr sku \<Rightarrow>
          (case axios_get w (catalog_url w item) of Inr data \<Rightarrow> True | Inl msg \<Rightarrow> False))"

definition enriched_item :: "world \<Rightarrow> jsval \<Rightarrow> jsval" where
  "enriched_item w item =
     JObj [(''sku'', field item ''sku''),
           (''quantity'', field item ''quantity''),
           (''metadata'', (case axios_get w (catalog_url w item) of Inr data \<Rightarrow> data | Inl msg \<Rightarrow> JUndefined))]"

definition hexval :: "char \<Rightarrow> nat" where
  "hexval c = (if of_char c < (97::nat) then of_char c - 48 else of_char c - 87)"

text \<open>
  A concrete world and the request of the spec's scenario, for evaluating the model: the
  catalog knows SKU100 and SKU200 and answers 404 for anything else, the queue accepts what it is given.
\<close>

definition demo_world :: world where
  "demo_world =
     \<lparr>Date_parse = (\<lambda>s. if s = ''2025-01-31T10:00:00Z'' then Some 1738317600000 else None),
      number_to_string = (\<lambda>n. ''0''),
      JSON_stringify = (\<lambda>v. ''{}''),
      JSON_parse = (\<lambda>s. if s = ''{}'' then Inr (JObj []) else Inl ''Unexpected token i in JSON at position 0''),
      now = 1762128000000,
      now_ISOString = ''2025-11-03T00:00:00.000Z'',
      CARD_CATALOG_BASE_URL = ''http://localhost:8080'',
      QUEUE_URL = ''http://localhost:4566/000000000000/assembled-orders'',
      axios_get = (\<lambda>url. if url = ''http://localhost:8080/catalog/sku/SKU100''
                         then Inr (JObj [(''name'', JStr ''Premium Widget'')])
                         else if url = ''http://localhost:8080/catalog/sku/SKU200''
                         then Inr (JObj [(''name'', JStr ''Standard Gadget'')])
                         else Inl ''Request failed with status code 404''),
      rng = (\<lambda>i. word_of_nat (17 * i + 3)),
      sqs_sendMessage = (\<lambda>p. Inr ''5fea7756-0ea4-451a-a703-a558b933e274'')\<rparr>"

definition valid_order :: jsval where
  "valid_order =
     JObj [(''order_id'', JStr ''O1''), (''customer_id'', JStr ''C1''),
           (''items'', JArr [JObj [(''sku'', JStr ''SKU100''), (''quantity'', JNum (Fin 2))]]),
           (''order_ts'', JStr ''2025-01-31T10:00:00Z'')]"

definition valid_request :: request where
  "valid_request = \<lparr>x_api_key = Some ''sk-test-valid-key-123456789'', reqBody = valid_order\<rparr>"

text \<open>
  Requests of the demonstration world: a well-formed order presented with a key that is no
  entry of the table but the name of a member of \<^verbatim>\<open>Object.prototype\<close>, and a body that is
  not JSON, sent once declared as JSON and once not.
\<close>

definition inherited_key_request :: request where
  "inherited_key_request = \<lparr>x_api_key = Some ''constructor'', reqBody = valid_order\<rparr>"

definition malformed_request :: raw_request where
  "malformed_request =
     \<lparr>raw_x_api_key = Some ''sk-test-valid-key-123456789'', declared_json = True,
      raw_body = ''invalid json {''\<rparr>"

definition undeclared_request :: raw_request where
  "undeclared_request = malformed_request\<lparr>declared_json := False\<rparr>"

text \<open>
  An integer strictly greater than zero, the quantity the data model of the spec asks for.
\<close>

fun positive_integer :: "jsval \<Rightarrow> bool" where
  "positive_integer (JNum (Fin r)) = (0 < r \<and> r = of_int \<lfloor>r\<rfloor>)"
| "positive_integer v = False"

text \<open>Orders of the demonstration world whose items are not what the spec asks for.\<close>

definition order_with_items :: "string \<Rightarrow> jsval list \<Rightarrow> jsval" where
  "order_with_items order_id items =
     JObj [(''order_id'', JStr order_id), (''customer_id'', JStr ''C1''),
           (''items'', JArr items), (''order_ts'', JStr ''2025-01-31T10:00:00Z'')]"

definition with_valid_key :: "jsval \<Rightarrow> request" where
  "with_valid_key b = \<lparr>x_api_key = Some ''sk-test-valid-key-123456789'', reqBody = b\<rparr>"

definition null_item_order :: jsval where
  "null_item_order = order_with_items [] [JNull]"

definition fractional_order :: jsval where
  "fractional_order =
     order_with_items ''O1'' [JObj [(''sku'', JStr ''SKU100''), (''quantity'', JNum (Fin (3 / 2)))]]"

definition zero_quantity_order :: jsval where
  "zero_quantity_order =
     order_with_items ''O1'' [JObj [(''sku'', JStr ''SKU100''), (''quantity'', JNum (Fin 0))]]"

text \<open>
  An order of three items of which the second is unknown to the catalog, and a world whose
  queue cannot be reached.
\<close>

definition mixed_order :: jsval where
  "mixed_order =
     order_with_items ''O1''
       [JObj [(''sku'', JStr ''SKU100''), (''quantity'', JNum (Fin 1))],
        JObj [(''sku'', JStr ''INVALID_SKU''), (''quantity'', JNum (Fin 1))],
        JObj [(''sku'', JStr ''SKU200''), (''quantity'', JNum (Fin 1))]]"

definition queue_down_world :: world where
  "queue_down_world = demo_world\<lparr>sqs_sendMessage := (\<lambda>p. Inl ''connect ECONNREFUSED 127.0.0.1:4566'')\<rparr>"

text \<open>An item whose sku is an object with a \<^verbatim>\<open>toString\<close> property of its own.\<close>

definition unprintable_item :: jsval where
  "unprintable_item =
     JObj [(''sku'', JObj [(''toString'', JStr ''x'')]), (''quantity'', JNum (Fin 1))]"

section \<open>Validation collects every error\<close>

lemma forEach_item_Cons:
  "forEach_item (x # xs) i errs =
     (if nullish x then Inl (cannot_read x ''sku'')
      else forEach_item xs (Suc i) (errs @ item_errors i x))"
  by (simp add: Let_def item_errors_def sku_bad_def quantity_bad_def sku_message_def
      quantity_message_def del: string_of_nat.simps)

lemma forEach_item_closed:
  "forEach_item xs i errs = Inr out \<longleftrightarrow>
     (\<forall>x\<in>set xs. \<not> nullish x) \<and> out = errs @ items_errors i xs"
proof (induction xs arbitrary: i errs)
  case Nil
  show ?case by auto
next
  case (Cons x xs)
  show ?case
    unfolding forEach_item_Cons using Cons.IH[of "Suc i" "errs @ item_errors i x"] by auto
qed

lemma forEach_item_throws:
  "(\<exists>e. forEach_item xs i errs = Inl e) \<longleftrightarrow> (\<exists>x\<in>set xs. nullish x)"
proof -
  have "(\<exists>e. forEach_item xs i errs = Inl e) \<longleftrightarrow> \<not> (\<exists>out. forEach_item xs i errs = Inr out)"
    by (cases "forEach_item xs i errs") auto
  then show ?thesis by (simp add: forEach_item_closed)
qed

lemma items_errors_quantity:
  "k < length xs \<Longrightarrow> quantity_bad (xs ! k) \<Longrightarrow> quantity_message (i + k) \<in> set (items_errors i xs)"
proof (induction xs arbitrary: i k)
  case Nil
  then show ?case by simp
next
  case (Cons x xs)
  show ?case
  proof (cases k)
    case 0
    with Cons.prems show ?thesis by (simp add: item_errors_def)
  next
    case (Suc j)
    with Cons.prems Cons.IH[of j "Suc i"] show ?thesis by simp
  qed
qed

lemma items_errors_sku:
  "k < length xs \<Longrightarrow> sku_bad (xs ! k) \<Longrightarrow> sku_message (i + k) \<in> set (items_errors i xs)"
proof (induction xs arbitrary: i k)
  case Nil
  then show ?case by simp
next
  case (Cons x xs)
  show ?case
  proof (cases k)
    case 0
    with Cons.prems show ?thesis by (simp add: item_errors_def)
  next
    case (Suc j)
    with Cons.prems Cons.IH[of j "Suc i"] show ?thesis by simp
  qed
qed

lemma items_errors_empty:
  "items_errors i xs = [] \<longleftrightarrow> (\<forall>x\<in>set xs. \<not> sku_bad x \<and> \<not> quantity_bad x)"
  by (induction xs arbitrary: i) (auto simp: item_errors_def)

lemma truthy_isArray: "isArray v \<Longrightarrow> truthy v"
  by (cases v) auto

lemma not_isArray_elements: "\<not> isArray v \<Longrightarrow> elements v = []"
  by (cases v) auto

lemma push_if: "(if c then e @ [m] else e) = e @ (if c then [m] else [])"
  by simp

lemma order_ts_push:
  "(if \<not> truthy (field payload ''order_ts'') \<or> typeof (field payload ''order_ts'') \<noteq> ''string''
    then e @ [''order_ts is required and must be a valid ISO 8601 timestamp'']
    else if Date_parse w (string_of (field payload ''order_ts'')) = None
    then e @ [''order_ts must be a valid ISO 8601 timestamp'']
    else e) = e @ order_ts_errors w payload"
  unfolding order_ts_errors_def by (simp only: if_distrib[of "\<lambda>x. e @ x"] append_Nil2 cong: if_cong)

lemma validateOrderPayload_unfold:
  "validateOrderPayload w payload =
     (if nullish payload then Inl (cannot_read payload ''order_id'')
      else
        (case (if isArray (field payload ''items'')
               then forEach_item (elements (field payload ''items'')) 0
                     ((if order_id_bad payload then [''order_id is required and must be a string''] else [])
                       @ (if customer_id_bad payload then [''customer_id is required and must be a string''] else [])
                       @ (if items_bad payload then [''items is required and must be a non-empty array''] else []))
               else Inr ((if order_id_bad payload then [''order_id is required and must be a string''] else [])
                       @ (if customer_id_bad payload then [''customer_id is required and must be a string''] else [])
                       @ (if items_bad payload then [''items is required and must be a non-empty array''] else []))) of
           Inl e \<Rightarrow> Inl e
         | Inr errors4 \<Rightarrow> Inr (errors4 @ order_ts_errors w payload)))"
proof -
  have c: "(truthy (field payload ''items'') \<and> isArray (field payload ''items'')) = isArray (field payload ''items'')"
    using truthy_isArray by blast
  show ?thesis
    unfolding validateOrderPayload_def Let_def order_ts_push
    unfolding c push_if
      order_id_bad_def[symmetric] customer_id_bad_def[symmetric] items_bad_def[symmetric]
    by (simp only: append_Nil append_assoc)
qed

lemma validateOrderPayload_closed:
  "validateOrderPayload w payload = Inr errs \<longleftrightarrow>
     \<not> nullish payload \<and> (\<forall>x\<in>set (elements (field payload ''items'')). \<not> nullish x)
     \<and> errs = all_errors w payload"
proof (cases "isArray (field payload ''items'')")
  case True
  define pre where "pre =
         (if order_id_bad payload then [''order_id is required and must be a string''] else [])
           @ (if customer_id_bad payload then [''customer_id is required and must be a string''] else [])
           @ (if items_bad payload then [''items is required and must be a non-empty array''] else [])"
  have u: "validateOrderPayload w payload =
     (if nullish payload then Inl (cannot_read payload ''order_id'')
      else (case forEach_item (elements (field payload ''items'')) 0 pre of
           Inl e \<Rightarrow> Inl e
         | Inr errors4 \<Rightarrow> Inr (errors4 @ order_ts_errors w payload)))"
    unfolding validateOrderPayload_unfold pre_def by (simp only: True if_True)
  have a: "all_errors w payload = (pre @ items_errors 0 (elements (field payload ''items''))) @ order_ts_errors w payload"
    unfolding all_errors_def pre_def by (simp only: append_assoc)
  show ?thesis
  proof (cases "\<forall>x\<in>set (elements (field payload ''items'')). \<not> nullish x")
    case ok: True
    then have "forEach_item (elements (field payload ''items'')) 0 pre
                 = Inr (pre @ items_errors 0 (elements (field payload ''items'')))"
      by (simp only: forEach_item_closed)
    then show ?thesis
      unfolding u a using ok by auto
  next
    case False
    then obtain e where "forEach_item (elements (field payload ''items'')) 0 pre = Inl e"
      using forEach_item_throws by blast
    with False show ?thesis
      unfolding u by simp
  qed
next
  case False
  then have e: "elements (field payload ''items'') = []" by (rule not_isArray_elements)
  show ?thesis
    unfolding validateOrderPayload_unfold all_errors_def e
    by (simp only: False if_False sum.case items_errors.simps set_simps ball_empty append_Nil) auto
qed

lemma validateOrderPayload_throws:
  "(\<exists>e. validateOrderPayload w payload = Inl e) \<longleftrightarrow>
     nullish payload \<or> (\<exists>x\<in>set (elements (field payload ''items'')). nullish x)"
proof -
  have "(\<exists>e. validateOrderPayload w payload = Inl e) \<longleftrightarrow> \<not> (\<exists>errs. validateOrderPayload w payload = Inr errs)"
    by (cases "validateOrderPayload w payload") auto
  then show ?thesis by (simp add: validateOrderPayload_closed)
qed

section \<open>Enrichment is all or nothing\<close>

lemma catalog_url_of_text:
  "sku_text w item = Inr sku \<Longrightarrow> catalog_url w item = CARD_CATALOG_BASE_URL w @ ''/catalog/sku/'' @ sku"
  by (simp add: catalog_url_def)

lemma sku_text_string: "field item ''sku'' = JStr sku \<Longrightarrow> sku_text w item = Inr sku"
  by (simp add: sku_text_def)

lemma enrich_loop_Cons:
  "enrich_loop w (item # rest) acc =
     (if nullish item then (Inl (cannot_read item ''sku''), [])
      else
        (case sku_text w item of
           Inl error \<Rightarrow> (Inl error, [])
         | Inr sku \<Rightarrow>
             (case axios_get w (catalog_url w item) of
                Inl msg \<Rightarrow>
                  (Inl (Rejection 502 (''Failed to enrich item with SKU '' @ sku) msg),
                   [catalog_url w item])
              | Inr data \<Rightarrow>
                  (fst (enrich_loop w rest (acc @ [enriched_item w item])),
                   catalog_url w item # snd (enrich_loop w rest (acc @ [enriched_item w item]))))))"
proof (cases "sku_text w item")
  case (Inl error)
  then show ?thesis by (simp add: sku_text_def)
next
  case (Inr sku)
  then have u: "catalog_url w item = CARD_CATALOG_BASE_URL w @ ''/catalog/sku/'' @ sku"
    by (rule catalog_url_of_text)
  have t: "ToString (number_to_string w) (field item ''sku'') = Inr sku"
    using Inr by (simp add: sku_text_def)
  show ?thesis
    by (simp add: Inr t u Let_def enriched_item_def split: sum.split)
qed

lemma enrich_loop_closed:
  "fst (enrich_loop w items acc) = Inr out \<longleftrightarrow>
     (\<forall>item\<in>set items. \<not> nullish item \<and> lookup_ok w item) \<and> out = acc @ map (enriched_item w) items"
proof (induction items arbitrary: acc)
  case Nil
  show ?case by auto
next
  case (Cons item rest)
  show ?case
    unfolding enrich_loop_Cons
    using Cons.IH[of "acc @ [enriched_item w item]"]
    by (simp add: lookup_ok_def split: sum.split)
qed

lemma enrich_loop_urls_ok:
  "\<forall>item\<in>set items. \<not> nullish item \<and> lookup_ok w item \<Longrightarrow>
   snd (enrich_loop w items acc) = map (catalog_url w) items"
proof (induction items arbitrary: acc)
  case Nil
  show ?case by simp
next
  case (Cons item rest)
  then show ?case
    unfolding enrich_loop_Cons by (simp add: lookup_ok_def split: sum.splits)
qed

lemma enrich_loop_first_failure:
  "\<forall>item\<in>set pre. \<not> nullish item \<and> lookup_ok w item \<Longrightarrow> \<not> nullish bad \<Longrightarrow>
   sku_text w bad = Inr sku \<Longrightarrow>
   axios_get w (catalog_url w bad) = Inl cause \<Longrightarrow>
   enrich_loop w (pre @ bad # post) acc =
     (Inl (Rejection 502 (''Failed to enrich item with SKU '' @ sku) cause),
      map (catalog_url w) (pre @ [bad]))"
proof (induction pre arbitrary: acc)
  case Nil
  then show ?case unfolding append_Nil enrich_loop_Cons by simp
next
  case (Cons item pre)
  from Cons.prems(1) have n: "\<not> nullish item" and l: "lookup_ok w item" by simp_all
  from Cons.prems have ih: "\<And>acc. enrich_loop w (pre @ bad # post) acc =
     (Inl (Rejection 502 (''Failed to enrich item with SKU '' @ sku) cause),
      map (catalog_url w) (pre @ [bad]))"
    using Cons.IH by simp
  show ?case
    unfolding append_Cons enrich_loop_Cons ih
    using n l by (simp add: lookup_ok_def split: sum.splits)
qed

text \<open>
  An item whose sku does not convert to a string (an object with a \<^verbatim>\<open>toString\<close> property of
  its own) makes the loop throw before any request is made for it.
\<close>

lemma enrich_loop_unprintable:
  "\<forall>item\<in>set pre. \<not> nullish item \<and> lookup_ok w item \<Longrightarrow> \<not> nullish bad \<Longrightarrow>
   sku_text w bad = Inl error \<Longrightarrow>
   enrich_loop w (pre @ bad # post) acc = (Inl error, map (catalog_url w) pre)"
proof (induction pre arbitrary: acc)
  case Nil
  then show ?case unfolding append_Nil enrich_loop_Cons by simp
next
  case (Cons item pre)
  from Cons.prems(1) have n: "\<not> nullish item" and l: "lookup_ok w item" by simp_all
  from Cons.prems have ih: "\<And>acc. enrich_loop w (pre @ bad # post) acc = (Inl error, map (catalog_url w) pre)"
    using Cons.IH by simp
  show ?case
    unfolding append_Cons enrich_loop_Cons ih
    using n l by (simp add: lookup_ok_def split: sum.splits)
qed

section \<open>Bytes in hexadecimal\<close>

lemma hexdigit_cases:
  assumes "n < 16"
  shows "n \<in> {0, 1, 2, 3, 4, 5, 6, 7, 8, 9, 10, 11, 12, 13, 14, 15 :: nat}"
  using assms by (simp only: insert_iff empty_iff) arith

lemma hexval_hexdigit: "n < 16 \<Longrightarrow> hexval (hexdigit n) = n"
  using hexdigit_cases[of n] by (auto simp: hexval_def hexdigit_def)

lemma is_hex_hexdigit: "n < 16 \<Longrightarrow> is_hex (hexdigit n)"
  using hexdigit_cases[of n] by (auto simp: is_hex_def hexdigit_def)

lemma hi_nibble: "unat (drop_bit 4 (b :: 8 word)) < 16"
proof -
  have "unat b < 256" using unsigned_less[of b] by simp
  moreover have "unat (drop_bit 4 b) = unat b div 16"
    by (simp add: drop_bit_eq_div unat_div)
  ultimately show ?thesis by simp
qed

lemma lo_nibble: "unat ((b :: 8 word) AND 0x0f) < 16"
proof -
  have "b AND 0x0f \<le> 0x0f" by (rule word_and_le1)
  then show ?thesis by (simp add: word_le_nat_alt)
qed

lemma byte_from_nibbles:
  "drop_bit 4 (x :: 8 word) = drop_bit 4 y \<Longrightarrow> x AND 0x0f = y AND 0x0f \<Longrightarrow> x = y"
proof -
  assume h: "drop_bit 4 x = drop_bit 4 y" and l: "x AND 0x0f = y AND 0x0f"
  have m: "(0x0f :: 8 word) = mask 4" by (simp add: mask_eq_exp_minus_1)
  from l have t: "take_bit 4 x = take_bit 4 y" by (simp only: m take_bit_eq_mask)
  have "x = push_bit 4 (drop_bit 4 x) + take_bit 4 x" by (simp only: bits_ident)
  also have "\<dots> = push_bit 4 (drop_bit 4 y) + take_bit 4 y" by (simp only: h t)
  also have "\<dots> = y" by (simp only: bits_ident)
  finally show ?thesis .
qed

lemma byteToHex_inj: "byteToHex x = byteToHex y \<Longrightarrow> x = y"
proof -
  assume e: "byteToHex x = byteToHex y"
  then have "hexval (hexdigit (unat (drop_bit 4 x))) = hexval (hexdigit (unat (drop_bit 4 y)))"
    and "hexval (hexdigit (unat (x AND 0x0f))) = hexval (hexdigit (unat (y AND 0x0f)))"
    by (simp_all add: byteToHex_def)
  then have "unat (drop_bit 4 x) = unat (drop_bit 4 y)" and "unat (x AND 0x0f) = unat (y AND 0x0f)"
    by (simp_all only: hexval_hexdigit[OF hi_nibble] hexval_hexdigit[OF lo_nibble])
  then have "drop_bit 4 x = drop_bit 4 y" and "x AND 0x0f = y AND 0x0f"
    by (simp_all only: word_unat_eq_iff)
  then show ?thesis by (rule byte_from_nibbles)
qed

lemma byteToHex_hex: "\<exists>h l. byteToHex b = [h, l] \<and> is_hex h \<and> is_hex l"
  by (simp add: byteToHex_def is_hex_hexdigit hi_nibble lo_nibble)

lemma version_nibble: "drop_bit 4 (((b::8 word) AND 0x0f) OR 0x40) = 4"
  by (rule bit_word_eqI) (auto simp: bit_simps)

lemma variant_nibble: "unat (drop_bit 4 (((b::8 word) AND 0x3f) OR 0x80)) \<in> {8, 9, 10, 11}"
proof -
  define t where "t = take_bit 2 (drop_bit 4 b)"
  have m: "(0x3f :: 8 word) = mask 6" "(0x80 :: 8 word) = 2 ^ 7" by (simp_all add: mask_eq_exp_minus_1)
  have e: "drop_bit 4 ((b AND 0x3f) OR 0x80) = 2 ^ 3 OR t"
    unfolding m t_def by (rule bit_word_eqI) (auto simp: bit_simps)
  have "unat t < 4"
  proof -
    have "unat t = take_bit 2 (unat (drop_bit 4 b))" unfolding t_def by (simp add: unsigned_take_bit_eq)
    also have "\<dots> < 2 ^ 2" by (rule take_bit_nat_less_exp)
    finally show ?thesis by simp
  qed
  then have "unat t = 0 \<or> unat t = 1 \<or> unat t = 2 \<or> unat t = 3" by arith
  then have "t = 0 \<or> t = 1 \<or> t = 2 \<or> t = 3"
    by (simp add: word_unat_eq_iff)
  then show ?thesis unfolding e by auto
qed

section \<open>Assembly identifiers have the textual UUID form\<close>

lemma version_char: "hexdigit (unat (drop_bit 4 (((b::8 word) AND 0x0f) OR 0x40))) = CHR ''4''"
  by (simp only: version_nibble) (simp add: hexdigit_def)

lemma variant_char: "hexdigit (unat (drop_bit 4 (((b::8 word) AND 0x3f) OR 0x80))) \<in> set ''89abAB''"
  using variant_nibble[of b] by (auto simp: hexdigit_def)

lemma uuidv4_matches_uuidPattern: "uuidPattern (uuidv4 w)"
  unfolding uuidv4_def unsafeStringify_def v4_bytes_def Let_def byteToHex_def uuidPattern_def
  using version_char[of "rng w 6"] variant_char[of "rng w 8"]
  by (simp add: is_hex_hexdigit hi_nibble lo_nibble)

lemma byteToHex_length: "length (byteToHex b) = 2"
  by (simp add: byteToHex_def)

lemma byteToHex_eq_iff: "byteToHex x = byteToHex y \<longleftrightarrow> x = y"
  using byteToHex_inj by auto

lemma byteToHex_append_eq:
  "byteToHex x @ r = byteToHex y @ r' \<longleftrightarrow> x = y \<and> r = r'"
  by (simp add: append_eq_append_conv byteToHex_length byteToHex_eq_iff)

lemma unsafeStringify_inj:
  assumes "unsafeStringify a = unsafeStringify b" and "i < 16"
  shows "a i = b i"
proof -
  from assms(1) have "a 0 = b 0 \<and> a 1 = b 1 \<and> a 2 = b 2 \<and> a 3 = b 3 \<and> a 4 = b 4 \<and> a 5 = b 5
      \<and> a 6 = b 6 \<and> a 7 = b 7 \<and> a 8 = b 8 \<and> a 9 = b 9 \<and> a 10 = b 10 \<and> a 11 = b 11
      \<and> a 12 = b 12 \<and> a 13 = b 13 \<and> a 14 = b 14 \<and> a 15 = b 15"
    unfolding unsafeStringify_def
    by (simp only: byteToHex_append_eq byteToHex_eq_iff append_Cons append_Nil list.inject simp_thms)
  then show ?thesis using hexdigit_cases[OF assms(2)] by auto
qed

section \<open>The handler after validation\<close>

lemma typeof_string: "typeof v = ''string'' \<longleftrightarrow> (\<exists>s. v = JStr s)"
  by (cases v) auto

lemma typeof_number: "typeof v = ''number'' \<longleftrightarrow> (\<exists>n. v = JNum n)"
  by (cases v) auto

lemma not_order_id_bad: "\<not> order_id_bad b \<longleftrightarrow> (\<exists>s. field b ''order_id'' = JStr s \<and> s \<noteq> [])"
  unfolding order_id_bad_def typeof_string by auto

lemma not_customer_id_bad: "\<not> customer_id_bad b \<longleftrightarrow> (\<exists>s. field b ''customer_id'' = JStr s \<and> s \<noteq> [])"
  unfolding customer_id_bad_def typeof_string by auto

lemma not_sku_bad: "\<not> sku_bad item \<longleftrightarrow> (\<exists>s. field item ''sku'' = JStr s \<and> s \<noteq> [])"
  unfolding sku_bad_def typeof_string by auto

lemma not_quantity_bad:
  "\<not> quantity_bad item \<longleftrightarrow> (\<exists>n. field item ''quantity'' = JNum n \<and> \<not> num_le_zero n)"
  unfolding quantity_bad_def typeof_number by auto

lemma not_items_bad:
  "\<not> items_bad b \<longleftrightarrow> (\<exists>xs. field b ''items'' = JArr xs \<and> xs \<noteq> [])"
  unfolding items_bad_def by (cases "field b ''items''") auto

lemma all_errors_empty:
  "all_errors w b = [] \<longleftrightarrow>
     \<not> order_id_bad b \<and> \<not> customer_id_bad b \<and> \<not> items_bad b
     \<and> (\<forall>x\<in>set (elements (field b ''items'')). \<not> sku_bad x \<and> \<not> quantity_bad x)
     \<and> order_ts_errors w b = []"
  unfolding all_errors_def by (simp add: items_errors_empty)

lemma validation_passes:
  "validateOrderPayload w b = Inr [] \<longleftrightarrow>
     \<not> nullish b \<and> \<not> order_id_bad b \<and> \<not> customer_id_bad b \<and> \<not> items_bad b
     \<and> (\<forall>x\<in>set (elements (field b ''items'')). \<not> nullish x \<and> \<not> sku_bad x \<and> \<not> quantity_bad x)
     \<and> order_ts_errors w b = []"
  unfolding validateOrderPayload_closed using all_errors_empty[of w b] by auto

lemma enrichOrderWithMetadata_ok:
  assumes "\<forall>item\<in>set items. \<not> nullish item \<and> lookup_ok w item"
  shows "enrichOrderWithMetadata w items = (Inr (map (enriched_item w) items), map (catalog_url w) items)"
proof -
  have "fst (enrich_loop w items []) = Inr (map (enriched_item w) items)"
    using assms by (simp add: enrich_loop_closed)
  moreover have "snd (enrich_loop w items []) = map (catalog_url w) items"
    using assms by (rule enrich_loop_urls_ok)
  ultimately show ?thesis unfolding enrichOrderWithMetadata_def by (simp add: prod_eq_iff)
qed

lemma publishToSQS_object:
  "\<not> nullish order \<Longrightarrow>
   publishToSQS w order =
     (case sqs_sendMessage w (publish_params w order) of
        Inl msg \<Rightarrow> (Inl (Rejection 503 ''Failed to publish order to queue'' msg), [publish_params w order])
      | Inr messageId \<Rightarrow> (Inr messageId, [publish_params w order]))"
  by (simp add: publishToSQS_def Let_def)

lemma enrichedOrder_not_nullish: "\<not> nullish (enrichedOrder_of w b es)"
  by (simp add: enrichedOrder_of_def)

lemma handler_enriched:
  assumes v: "validateOrderPayload w b = Inr []"
    and l: "\<forall>item\<in>set (elements (field b ''items'')). lookup_ok w item"
  shows "assemble_handler w b =
     (case sqs_sendMessage w (publish_params w
              (enrichedOrder_of w b (map (enriched_item w) (elements (field b ''items''))))) of
        Inl msg \<Rightarrow>
          (\<lparr>status = 503,
            body = JObj [(''error'', JStr ''Failed to publish order to queue''), (''details'', JStr msg)]\<rparr>,
           map CatalogGet (map (catalog_url w) (elements (field b ''items'')))
             @ [SqsSend (publish_params w
                  (enrichedOrder_of w b (map (enriched_item w) (elements (field b ''items'')))))])
      | Inr messageId \<Rightarrow>
          (\<lparr>status = 200,
            body = JObj [(''success'', JBool True),
                         (''order_id'', field b ''order_id''),
                         (''assembly_id'', JStr (uuidv4 w)),
                         (''message'', JStr ''Order assembled and published successfully''),
                         (''sqs_message_id'', JStr messageId)]\<rparr>,
           map CatalogGet (map (catalog_url w) (elements (field b ''items'')))
             @ [SqsSend (publish_params w
                  (enrichedOrder_of w b (map (enriched_item w) (elements (field b ''items'')))))]))"
proof -
  from v have n: "\<forall>item\<in>set (elements (field b ''items'')). \<not> nullish item"
    and o: "\<exists>s. field b ''order_id'' = JStr s"
    unfolding validation_passes not_order_id_bad by auto
  from n l have e: "enrichOrderWithMetadata w (elements (field b ''items'')) =
      (Inr (map (enriched_item w) (elements (field b ''items''))),
       map (catalog_url w) (elements (field b ''items'')))"
    by (intro enrichOrderWithMetadata_ok) auto
  have a: "field (enrichedOrder_of w b es) ''assembly_id'' = JStr (uuidv4 w)" for es
    by (simp add: enrichedOrder_of_def)
  from o obtain s where s: "field b ''order_id'' = JStr s" by blast
  show ?thesis
    unfolding assemble_handler_def v e Let_def
    by (simp add: publishToSQS_object[OF enrichedOrder_not_nullish] a s res_json_def
        split: sum.split)
qed

section \<open>The success path\<close>

text \<open>
  Claim C1. A request admitted by the API-key middleware, whose payload passes validation,
  whose every SKU lookup succeeds and whose message the queue accepts, is answered with
  status 200 and a body holding \<open>success = true\<close>, the payload's own \<open>order_id\<close>, an
  \<open>assembly_id\<close> that matches the textual UUID form, a message string and the MessageId the
  queue returned.
\<close>

theorem success_response:
  assumes "authenticateApiKey w (x_api_key req) = Inr keyData"
    and "validateOrderPayload w (reqBody req) = Inr []"
    and "\<forall>item\<in>set (elements (field (reqBody req) ''items'')). lookup_ok w item"
    and "sqs_sendMessage w (publish_params w (enrichedOrder_of w (reqBody req)
           (map (enriched_item w) (elements (field (reqBody req) ''items''))))) = Inr messageId"
  shows "\<exists>order_id.
           field (reqBody req) ''order_id'' = JStr order_id
         \<and> fst (post_orders_assemble w req) =
             \<lparr>status = 200,
              body = JObj [(''success'', JBool True),
                           (''order_id'', JStr order_id),
                           (''assembly_id'', JStr (uuidv4 w)),
                           (''message'', JStr ''Order assembled and published successfully''),
                           (''sqs_message_id'', JStr messageId)]\<rparr>
         \<and> uuidPattern (uuidv4 w)"
proof -
  from assms(2) obtain s where s: "field (reqBody req) ''order_id'' = JStr s"
    unfolding validation_passes not_order_id_bad by blast
  have "post_orders_assemble w req = assemble_handler w (reqBody req)"
    by (simp add: post_orders_assemble_def assms(1))
  then show ?thesis
    using handler_enriched[OF assms(2) assms(3)] uuidv4_matches_uuidPattern[of w]
    by (simp add: assms(4) s)
qed

lemma demo_world_uuid: "uuidv4 demo_world = ''03142536-4758-497a-8b9c-adbecfe0f102''"
  by code_simp

theorem success_response_witness:
  "authenticateApiKey demo_world (x_api_key valid_request)
     = Inr (Own \<lparr>name = ''Test Client'', createdAt = 1735689600000, expiresAt = None\<rparr>)
   \<and> validateOrderPayload demo_world (reqBody valid_request) = Inr []
   \<and> list_all (lookup_ok demo_world) (elements (field (reqBody valid_request) ''items''))
   \<and> fst (post_orders_assemble demo_world valid_request) =
       \<lparr>status = 200,
        body = JObj [(''success'', JBool True),
                     (''order_id'', JStr ''O1''),
                     (''assembly_id'', JStr ''03142536-4758-497a-8b9c-adbecfe0f102''),
                     (''message'', JStr ''Order assembled and published successfully''),
                     (''sqs_message_id'', JStr ''5fea7756-0ea4-451a-a703-a558b933e274'')]\<rparr>"
proof -
  have a: "authenticateApiKey demo_world (x_api_key valid_request)
     = Inr (Own \<lparr>name = ''Test Client'', createdAt = 1735689600000, expiresAt = None\<rparr>)"
    by code_simp
  have v: "validateOrderPayload demo_world (reqBody valid_request) = Inr []"
    by code_simp
  have l: "\<forall>item\<in>set (elements (field (reqBody valid_request) ''items'')). lookup_ok demo_world item"
    by code_simp
  have p: "sqs_sendMessage demo_world (publish_params demo_world (enrichedOrder_of demo_world (reqBody valid_request)
           (map (enriched_item demo_world) (elements (field (reqBody valid_request) ''items'')))))
         = Inr ''5fea7756-0ea4-451a-a703-a558b933e274''"
    by (simp add: demo_world_def)
  have o: "field (reqBody valid_request) ''order_id'' = JStr ''O1''"
    by code_simp
  from success_response[OF a v l p] show ?thesis
    by (simp add: a v l o demo_world_uuid list_all_iff)
qed

section \<open>Authentication\<close>

text \<open>
  What holds of the middleware: a request with no key, with a key that \<^verbatim>\<open>VALID_API_KEYS[apiKey]\<close>
  does not resolve, or with an expired key is answered 401 whatever its body, and neither
  the catalog nor the queue is called.
\<close>

lemma rejected_key_is_401:
  assumes "k = None \<or> k = Some []
         \<or> (\<exists>s. k = Some s \<and> VALID_API_KEYS_get s = None)
         \<or> (\<exists>s kd e. k = Some s \<and> VALID_API_KEYS_get s = Some kd \<and> keyData_expiresAt kd = Some e \<and> now w > e)"
  shows "\<exists>details. post_orders_assemble w \<lparr>x_api_key = k, reqBody = b\<rparr> =
           (\<lparr>status = 401, body = JObj [(''error'', JStr ''Unauthorized''), (''details'', JStr details)]\<rparr>, [])"
  using assms
  by (auto simp: post_orders_assemble_def authenticateApiKey_def res_json_def)

text \<open>
  Claim C2. The claim says an unknown key is answered 401. The table is an object literal
  and is read with \<^verbatim>\<open>VALID_API_KEYS[apiKey]\<close>, so a key such as \<^verbatim>\<open>constructor\<close>, which is no
  entry of the table, reads an inherited member: the check for a valid key lets it through,
  it has no expiry, and the order is validated, enriched and published.
\<close>

theorem inherited_key_is_admitted:
  "map_of VALID_API_KEYS ''constructor'' = None
   \<and> authenticateApiKey demo_world (x_api_key inherited_key_request) = Inr (Inherited ''constructor'')
   \<and> fst (post_orders_assemble demo_world inherited_key_request) =
       \<lparr>status = 200,
        body = JObj [(''success'', JBool True),
                     (''order_id'', JStr ''O1''),
                     (''assembly_id'', JStr ''03142536-4758-497a-8b9c-adbecfe0f102''),
                     (''message'', JStr ''Order assembled and published successfully''),
                     (''sqs_message_id'', JStr ''5fea7756-0ea4-451a-a703-a558b933e274'')]\<rparr>"
  by code_simp

text \<open>
  Claim C10. An \<^verbatim>\<open>x-api-key\<close> header holding the empty string is answered 401 with the
  details of a missing key, the answer an absent header gets: the presence check
  \<^verbatim>\<open>!apiKey\<close> holds of the empty string, so the table is never consulted.
\<close>

theorem empty_key_is_missing_key:
  "post_orders_assemble w \<lparr>x_api_key = Some [], reqBody = b\<rparr> =
     (\<lparr>status = 401,
       body = JObj [(''error'', JStr ''Unauthorized''),
                    (''details'', JStr ''API key is required. Provide it in the X-API-Key header.'')]\<rparr>,
      [])
   \<and> post_orders_assemble w \<lparr>x_api_key = Some [], reqBody = b\<rparr>
       = post_orders_assemble w \<lparr>x_api_key = None, reqBody = b\<rparr>"
  by (simp add: post_orders_assemble_def authenticateApiKey_def res_json_def)

section \<open>Bodies that do not parse\<close>

text \<open>
  A request that does not declare its body as JSON is not parsed at all: the route runs on
  the empty object, whatever the body holds, and a request admitted by the API-key
  middleware is answered 400 with the four errors of an empty document.
\<close>

lemma undeclared_body_reaches_route:
  "\<not> declared_json raw \<Longrightarrow>
   app_post_orders_assemble w raw =
     post_orders_assemble w \<lparr>x_api_key = raw_x_api_key raw, reqBody = JObj []\<rparr>"
  by (simp add: app_post_orders_assemble_def)

lemma undeclared_body_is_validated:
  "app_post_orders_assemble demo_world undeclared_request =
     (\<lparr>status = 400,
       body = JObj [(''error'', JStr ''Validation failed''),
                    (''details'',
                     JArr [JStr ''order_id is required and must be a string'',
                           JStr ''customer_id is required and must be a string'',
                           JStr ''items is required and must be a non-empty array'',
                           JStr ''order_ts is required and must be a valid ISO 8601 timestamp''])]\<rparr>,
      [])"
  by code_simp

text \<open>
  Claim C8, as the code has it. A request that declares its body as JSON
  (\<^verbatim>\<open>Content-Type: application/json\<close>) and whose non-empty body \<^verbatim>\<open>express.json()\<close> cannot parse
  never reaches the route: the error-handling middleware answers with status 500, the error
  \<^verbatim>\<open>Internal server error\<close> and, as details, the parser's message alone; nothing is
  authenticated, validated or called.
\<close>

theorem unparseable_body_is_500:
  assumes "declared_json raw" and "raw_body raw \<noteq> []"
    and "JSON_parse w (raw_body raw) = Inl err_message"
  shows "app_post_orders_assemble w raw =
           (\<lparr>status = 500,
             body = JObj [(''error'', JStr ''Internal server error''),
                          (''details'', JStr err_message)]\<rparr>, [])"
  by (simp add: app_post_orders_assemble_def assms error_middleware_def res_json_def)

theorem unparseable_body_is_500_witness:
  "declared_json malformed_request \<and> raw_body malformed_request \<noteq> []
   \<and> JSON_parse demo_world (raw_body malformed_request) = Inl ''Unexpected token i in JSON at position 0''
   \<and> app_post_orders_assemble demo_world malformed_request =
       (\<lparr>status = 500,
         body = JObj [(''error'', JStr ''Internal server error''),
                      (''details'', JStr ''Unexpected token i in JSON at position 0'')]\<rparr>, [])"
proof -
  have p: "JSON_parse demo_world (raw_body malformed_request) = Inl ''Unexpected token i in JSON at position 0''"
    by code_simp
  have d: "declared_json malformed_request" by code_simp
  have n: "raw_body malformed_request \<noteq> []" by code_simp
  from unparseable_body_is_500[OF d n p] d n p show ?thesis by simp
qed

text \<open>
  The claim as stated, status 400, fails on the request of the repository's own test: the
  body \<^verbatim>\<open>invalid json {\<close> declared as \<^verbatim>\<open>application/json\<close>.
\<close>

theorem unparseable_body_is_not_400:
  "declared_json malformed_request
   \<and> JSON_parse demo_world (raw_body malformed_request) = Inl ''Unexpected token i in JSON at position 0''
   \<and> status (fst (app_post_orders_assemble demo_world malformed_request)) = 500
   \<and> status (fst (app_post_orders_assemble demo_world malformed_request)) \<noteq> 400"
  by code_simp

section \<open>Rejected payloads\<close>

lemma handler_rejects:
  assumes "validateOrderPayload w b = Inr errs" and "errs \<noteq> []"
  shows "assemble_handler w b =
           (\<lparr>status = 400,
             body = JObj [(''error'', JStr ''Validation failed''),
                          (''details'', JArr (map JStr errs))]\<rparr>, [])"
  using assms by (simp add: assemble_handler_def res_json_def)

text \<open>
  Validation does not stop at the first error: where it returns, every violated rule has
  its entry in the list, and the list is empty only when no rule is violated.
\<close>

lemma validation_reports_every_violation:
  assumes "validateOrderPayload w b = Inr errs"
  shows "(order_id_bad b \<longrightarrow> ''order_id is required and must be a string'' \<in> set errs)
       \<and> (customer_id_bad b \<longrightarrow> ''customer_id is required and must be a string'' \<in> set errs)
       \<and> (items_bad b \<longrightarrow> ''items is required and must be a non-empty array'' \<in> set errs)
       \<and> (\<forall>k < length (elements (field b ''items'')).
             sku_bad (elements (field b ''items'') ! k) \<longrightarrow> sku_message k \<in> set errs)
       \<and> (\<forall>k < length (elements (field b ''items'')).
             quantity_bad (elements (field b ''items'') ! k) \<longrightarrow> quantity_message k \<in> set errs)
       \<and> set (order_ts_errors w b) \<subseteq> set errs"
proof -
  from assms have e: "errs = all_errors w b" by (simp add: validateOrderPayload_closed)
  show ?thesis
    unfolding e all_errors_def
    using items_errors_sku[of _ "elements (field b ''items'')" 0]
      items_errors_quantity[of _ "elements (field b ''items'')" 0]
    by auto
qed

text \<open>
  Claim C3. The claim asks for 400 and one entry per violated rule for every structured
  payload. A payload whose \<open>items\<close> array holds \<^verbatim>\<open>null\<close> violates the rules on \<open>sku\<close> and
  \<open>quantity\<close>, here also the rule on \<open>order_id\<close>; the validator throws on reading
  \<^verbatim>\<open>item.sku\<close>, the outer \<^verbatim>\<open>catch\<close> of the handler answers, and the response is 500 with
  no list of violations.
\<close>

theorem null_item_is_500:
  "validateOrderPayload demo_world null_item_order = Inl (cannot_read JNull ''sku'')
   \<and> post_orders_assemble demo_world (with_valid_key null_item_order) =
       (\<lparr>status = 500,
         body = JObj [(''error'', JStr ''Internal server error''),
                      (''details'', JStr (thrown_message (cannot_read JNull ''sku'')))]\<rparr>, [])"
  by code_simp

theorem null_item_is_500_witness:
  "status (fst (post_orders_assemble demo_world (with_valid_key null_item_order))) = 500
   \<and> snd (post_orders_assemble demo_world (with_valid_key null_item_order)) = []"
  using null_item_is_500 by simp

text \<open>
  Claim C4, as the code has it. In a payload whose \<open>items\<close> array has no null entry, an item
  whose quantity is not a number, or is a number not above zero (missing, non-numeric, zero,
  negative), gets the entry \<^verbatim>\<open>items[k].quantity must be a number greater than 0\<close>, and the
  request, once admitted by the API-key middleware, is answered 400 with the list of errors.
\<close>

theorem bad_quantity_is_rejected:
  assumes "authenticateApiKey w (x_api_key req) = Inr keyData"
    and "\<not> nullish (reqBody req)"
    and "field (reqBody req) ''items'' = JArr items"
    and "\<forall>item\<in>set items. \<not> nullish item"
    and "k < length items"
    and "typeof (field (items ! k) ''quantity'') \<noteq> ''number''
           \<or> quantity_le_zero (field (items ! k) ''quantity'')"
  shows "\<exists>errs. validateOrderPayload w (reqBody req) = Inr errs
           \<and> (''items['' @ string_of_nat k @ ''].quantity must be a number greater than 0'') \<in> set errs
           \<and> post_orders_assemble w req =
               (\<lparr>status = 400,
                 body = JObj [(''error'', JStr ''Validation failed''),
                              (''details'', JArr (map JStr errs))]\<rparr>, [])"
proof -
  have v: "validateOrderPayload w (reqBody req) = Inr (all_errors w (reqBody req))"
    using assms(2,3,4) by (simp add: validateOrderPayload_closed)
  have q: "quantity_bad (elements (field (reqBody req) ''items'') ! k)"
    using assms(3,6) by (simp add: quantity_bad_def)
  from validation_reports_every_violation[OF v] q assms(3,5)
  have m: "quantity_message k \<in> set (all_errors w (reqBody req))" by simp
  then have ne: "all_errors w (reqBody req) \<noteq> []" by auto
  have "post_orders_assemble w req = assemble_handler w (reqBody req)"
    by (simp add: post_orders_assemble_def assms(1))
  with handler_rejects[OF v ne] v m show ?thesis
    by (simp add: quantity_message_def)
qed

theorem bad_quantity_is_rejected_witness:
  "fst (post_orders_assemble demo_world (with_valid_key zero_quantity_order)) =
     \<lparr>status = 400,
      body = JObj [(''error'', JStr ''Validation failed''),
                   (''details'', JArr [JStr ''items[0].quantity must be a number greater than 0''])]\<rparr>"
proof -
  have a: "authenticateApiKey demo_world (x_api_key (with_valid_key zero_quantity_order))
     = Inr (Own \<lparr>name = ''Test Client'', createdAt = 1735689600000, expiresAt = None\<rparr>)"
    by code_simp
  have n: "\<not> nullish (reqBody (with_valid_key zero_quantity_order))" by code_simp
  have i: "field (reqBody (with_valid_key zero_quantity_order)) ''items''
             = JArr [JObj [(''sku'', JStr ''SKU100''), (''quantity'', JNum (Fin 0))]]"
    by code_simp
  have z: "\<forall>item\<in>set [JObj [(''sku'', JStr ''SKU100''), (''quantity'', JNum (Fin 0))]]. \<not> nullish item"
    by simp
  have k: "(0::nat) < length [JObj [(''sku'', JStr ''SKU100''), (''quantity'', JNum (Fin 0))]]" by simp
  have q: "typeof (field ([JObj [(''sku'', JStr ''SKU100''), (''quantity'', JNum (Fin 0))]] ! 0) ''quantity'') \<noteq> ''number''
           \<or> quantity_le_zero (field ([JObj [(''sku'', JStr ''SKU100''), (''quantity'', JNum (Fin 0))]] ! 0) ''quantity'')"
    by simp
  have v: "validateOrderPayload demo_world (reqBody (with_valid_key zero_quantity_order))
             = Inr [''items[0].quantity must be a number greater than 0'']"
    by code_simp
  from bad_quantity_is_rejected[OF a n i z k q] show ?thesis
    by (auto simp: v)
qed

text \<open>
  The claim as stated fails on a fractional quantity: \<open>3/2\<close> is no integer, yet the validator
  finds no error and the order is answered 200.
\<close>

theorem fractional_quantity_is_accepted:
  "\<not> positive_integer (JNum (Fin (3 / 2)))
   \<and> validateOrderPayload demo_world fractional_order = Inr []
   \<and> status (fst (post_orders_assemble demo_world (with_valid_key fractional_order))) = 200"
  by code_simp

section \<open>Enrichment, item by item\<close>

lemma unprintable_sku_throws:
  "enrichOrderWithMetadata demo_world
     [JObj [(''sku'', JStr ''SKU100''), (''quantity'', JNum (Fin 1))], unprintable_item]
   = (Inl (TypeError ''Cannot convert object to primitive value''),
      [''http://localhost:8080/catalog/sku/SKU100''])"
  by code_simp

text \<open>
  Claim C5. When no item is null and every catalog lookup succeeds (the item's sku converts
  to a string for the URL and the request is answered), enrichment returns the list that
  has, for each input item and in the same order, the item's \<open>sku\<close> and \<open>quantity\<close> with the
  data the lookup for that item returned (and it requested exactly the items' URLs, in
  order). Conversely, whenever enrichment returns a list, each of its entries stands for
  the input item at the same position, whose own lookup was made and succeeded.
\<close>

theorem enrichment_is_pointwise:
  "((\<forall>item\<in>set items. \<not> nullish item \<and> lookup_ok w item) \<longrightarrow>
       enrichOrderWithMetadata w items = (Inr (map (enriched_item w) items), map (catalog_url w) items))
   \<and> (fst (enrichOrderWithMetadata w items) = Inr out \<longrightarrow>
       list_all2
         (\<lambda>item e. \<exists>sku data.
                      ToString (number_to_string w) (field item ''sku'') = Inr sku
                    \<and> axios_get w (CARD_CATALOG_BASE_URL w @ ''/catalog/sku/'' @ sku) = Inr data
                    \<and> e = JObj [(''sku'', field item ''sku''),
                                (''quantity'', field item ''quantity''),
                                (''metadata'', data)])
         items out)"
proof (intro conjI impI)
  assume "\<forall>item\<in>set items. \<not> nullish item \<and> lookup_ok w item"
  then show "enrichOrderWithMetadata w items = (Inr (map (enriched_item w) items), map (catalog_url w) items)"
    by (rule enrichOrderWithMetadata_ok)
next
  assume "fst (enrichOrderWithMetadata w items) = Inr out"
  then have ok: "\<forall>item\<in>set items. lookup_ok w item" and out: "out = map (enriched_item w) items"
    by (simp_all add: enrichOrderWithMetadata_def enrich_loop_closed)
  have "\<exists>sku data. ToString (number_to_string w) (field item ''sku'') = Inr sku
          \<and> axios_get w (CARD_CATALOG_BASE_URL w @ ''/catalog/sku/'' @ sku) = Inr data
          \<and> enriched_item w item = JObj [(''sku'', field item ''sku''),
                                (''quantity'', field item ''quantity''),
                                (''metadata'', data)]" if "item \<in> set items" for item
  proof -
    from ok that have l: "lookup_ok w item" by blast
    then obtain sku where t: "sku_text w item = Inr sku"
      by (auto simp: lookup_ok_def split: sum.splits)
    from l t obtain data where d: "axios_get w (catalog_url w item) = Inr data"
      by (auto simp: lookup_ok_def split: sum.splits)
    have u: "catalog_url w item = CARD_CATALOG_BASE_URL w @ ''/catalog/sku/'' @ sku"
      using t by (rule catalog_url_of_text)
    have "enriched_item w item = JObj [(''sku'', field item ''sku''),
                                (''quantity'', field item ''quantity''),
                                (''metadata'', data)]"
      by (simp only: enriched_item_def d sum.case)
    with t d show ?thesis unfolding u sku_text_def by blast
  qed
  then show "list_all2
         (\<lambda>item e. \<exists>sku data.
                      ToString (number_to_string w) (field item ''sku'') = Inr sku
                    \<and> axios_get w (CARD_CATALOG_BASE_URL w @ ''/catalog/sku/'' @ sku) = Inr data
                    \<and> e = JObj [(''sku'', field item ''sku''),
                                (''quantity'', field item ''quantity''),
                                (''metadata'', data)])
         items out"
    unfolding out by (simp only: list_all2_map2 list_all2_same) blast
qed

theorem enrichment_is_pointwise_witness:
  "enrichOrderWithMetadata demo_world
     [JObj [(''sku'', JStr ''SKU200''), (''quantity'', JNum (Fin 1))],
      JObj [(''sku'', JStr ''SKU100''), (''quantity'', JNum (Fin 2))]]
   = (Inr [JObj [(''sku'', JStr ''SKU200''), (''quantity'', JNum (Fin 1)),
                 (''metadata'', JObj [(''name'', JStr ''Standard Gadget'')])],
           JObj [(''sku'', JStr ''SKU100''), (''quantity'', JNum (Fin 2)),
                 (''metadata'', JObj [(''name'', JStr ''Premium Widget'')])]],
      [''http://localhost:8080/catalog/sku/SKU200'', ''http://localhost:8080/catalog/sku/SKU100''])"
proof -
  have h: "\<forall>item\<in>set [JObj [(''sku'', JStr ''SKU200''), (''quantity'', JNum (Fin 1))],
      JObj [(''sku'', JStr ''SKU100''), (''quantity'', JNum (Fin 2))]]. \<not> nullish item \<and> lookup_ok demo_world item"
    by code_simp
  have e: "map (enriched_item demo_world) [JObj [(''sku'', JStr ''SKU200''), (''quantity'', JNum (Fin 1))],
      JObj [(''sku'', JStr ''SKU100''), (''quantity'', JNum (Fin 2))]]
    = [JObj [(''sku'', JStr ''SKU200''), (''quantity'', JNum (Fin 1)),
                 (''metadata'', JObj [(''name'', JStr ''Standard Gadget'')])],
           JObj [(''sku'', JStr ''SKU100''), (''quantity'', JNum (Fin 2)),
                 (''metadata'', JObj [(''name'', JStr ''Premium Widget'')])]]"
    by code_simp
  have u: "map (catalog_url demo_world) [JObj [(''sku'', JStr ''SKU200''), (''quantity'', JNum (Fin 1))],
      JObj [(''sku'', JStr ''SKU100''), (''quantity'', JNum (Fin 2))]]
    = [''http://localhost:8080/catalog/sku/SKU200'', ''http://localhost:8080/catalog/sku/SKU100'']"
    by code_simp
  from enrichment_is_pointwise[of "[JObj [(''sku'', JStr ''SKU200''), (''quantity'', JNum (Fin 1))],
      JObj [(''sku'', JStr ''SKU100''), (''quantity'', JNum (Fin 2))]]" demo_world] h
  show ?thesis by (simp only: e u)
qed

text \<open>
  Claim C6. A request admitted by the API-key middleware, whose payload passes validation
  and which holds at least one item whose lookup fails, is answered 502 with the single
  error \<^verbatim>\<open>Failed to enrich item with SKU <sku>\<close> naming the first such item and the cause as
  details. The catalog was asked for the items up to that one and nothing was handed to the
  queue, however many other items are resolvable.
\<close>

theorem failed_lookup_is_502:
  assumes "authenticateApiKey w (x_api_key req) = Inr keyData"
    and "validateOrderPayload w (reqBody req) = Inr []"
    and "\<exists>item\<in>set (elements (field (reqBody req) ''items'')). \<not> lookup_ok w item"
  shows "\<exists>pre bad post sku cause.
           elements (field (reqBody req) ''items'') = pre @ bad # post
         \<and> (\<forall>item\<in>set pre. lookup_ok w item)
         \<and> field bad ''sku'' = JStr sku
         \<and> axios_get w (catalog_url w bad) = Inl cause
         \<and> post_orders_assemble w req =
             (\<lparr>status = 502,
               body = JObj [(''error'', JStr (''Failed to enrich item with SKU '' @ sku)),
                            (''details'', JStr cause)]\<rparr>,
              map CatalogGet (map (catalog_url w) (pre @ [bad])))"
proof -
  from assms(3) obtain pre bad post where
    s: "elements (field (reqBody req) ''items'') = pre @ bad # post"
    and b: "\<not> lookup_ok w bad" and p: "\<forall>item\<in>set pre. lookup_ok w item"
    using split_list_first_prop[of "elements (field (reqBody req) ''items'')" "\<lambda>item. \<not> lookup_ok w item"]
    by auto
  from assms(2) have n: "\<forall>x\<in>set (pre @ bad # post). \<not> nullish x \<and> \<not> sku_bad x"
    unfolding validation_passes s by auto
  then obtain sku where k: "field bad ''sku'' = JStr sku"
    unfolding not_sku_bad by auto
  then have t: "sku_text w bad = Inr sku" by (rule sku_text_string)
  from b t obtain cause where c: "axios_get w (catalog_url w bad) = Inl cause"
    by (auto simp: lookup_ok_def split: sum.splits)
  have e: "enrichOrderWithMetadata w (pre @ bad # post) =
     (Inl (Rejection 502 (''Failed to enrich item with SKU '' @ sku) cause),
      map (catalog_url w) (pre @ [bad]))"
    unfolding enrichOrderWithMetadata_def
    using enrich_loop_first_failure[of pre w bad sku cause post "[]"] n p c t
    by simp
  have "post_orders_assemble w req = assemble_handler w (reqBody req)"
    by (simp add: post_orders_assemble_def assms(1))
  also have "\<dots> = (\<lparr>status = 502,
               body = JObj [(''error'', JStr (''Failed to enrich item with SKU '' @ sku)),
                            (''details'', JStr cause)]\<rparr>,
              map CatalogGet (map (catalog_url w) (pre @ [bad])))"
    unfolding assemble_handler_def assms(2) s e Let_def
    by (simp add: res_json_def)
  finally show ?thesis using s p k c by blast
qed

theorem failed_lookup_is_502_witness:
  "post_orders_assemble demo_world (with_valid_key mixed_order) =
     (\<lparr>status = 502,
       body = JObj [(''error'', JStr ''Failed to enrich item with SKU INVALID_SKU''),
                    (''details'', JStr ''Request failed with status code 404'')]\<rparr>,
      [CatalogGet ''http://localhost:8080/catalog/sku/SKU100'',
       CatalogGet ''http://localhost:8080/catalog/sku/INVALID_SKU''])"
proof -
  have a: "authenticateApiKey demo_world (x_api_key (with_valid_key mixed_order))
     = Inr (Own \<lparr>name = ''Test Client'', createdAt = 1735689600000, expiresAt = None\<rparr>)"
    by code_simp
  have v: "validateOrderPayload demo_world (reqBody (with_valid_key mixed_order)) = Inr []"
    by code_simp
  have b: "\<exists>item\<in>set (elements (field (reqBody (with_valid_key mixed_order)) ''items'')). \<not> lookup_ok demo_world item"
    by code_simp
  from failed_lookup_is_502[OF a v b] obtain pre bad post sku cause where
    r: "post_orders_assemble demo_world (with_valid_key mixed_order) =
             (\<lparr>status = 502,
               body = JObj [(''error'', JStr (''Failed to enrich item with SKU '' @ sku)),
                            (''details'', JStr cause)]\<rparr>,
              map CatalogGet (map (catalog_url demo_world) (pre @ [bad])))"
    by blast
  have c: "post_orders_assemble demo_world (with_valid_key mixed_order) =
     (\<lparr>status = 502,
       body = JObj [(''error'', JStr ''Failed to enrich item with SKU INVALID_SKU''),
                    (''details'', JStr ''Request failed with status code 404'')]\<rparr>,
      [CatalogGet ''http://localhost:8080/catalog/sku/SKU100'',
       CatalogGet ''http://localhost:8080/catalog/sku/INVALID_SKU''])"
    by code_simp
  from r c show ?thesis by simp
qed

section \<open>Publication\<close>

text \<open>
  Claim C7. Publishing an order hands the queue one message, once: its body is the
  serialised order and its attributes are exactly two, \<open>order_id\<close> and \<open>customer_id\<close>, each a
  String carrying the order's field. When the transport fails, the step throws the single
  503 error \<^verbatim>\<open>Failed to publish order to queue\<close> with the cause as details, and a request
  that got that far is answered 503 with that error after exactly one attempt to send.
\<close>

theorem publish_once_or_503:
  "(\<not> nullish order \<longrightarrow>
      snd (publishToSQS w order) =
        [\<lparr>QueueUrl = QUEUE_URL w,
          MessageBody = JSON_stringify w order,
          MessageAttributes =
            [(''order_id'', \<lparr>StringValue = field order ''order_id'', DataType = ''String''\<rparr>),
             (''customer_id'', \<lparr>StringValue = field order ''customer_id'', DataType = ''String''\<rparr>)]\<rparr>]
      \<and> (sqs_sendMessage w (publish_params w order) = Inl cause \<longrightarrow>
           fst (publishToSQS w order) = Inl (Rejection 503 ''Failed to publish order to queue'' cause)))
   \<and> (authenticateApiKey w (x_api_key req) = Inr keyData
        \<and> validateOrderPayload w (reqBody req) = Inr []
        \<and> (\<forall>item\<in>set (elements (field (reqBody req) ''items'')). lookup_ok w item)
        \<and> sqs_sendMessage w (publish_params w (enrichedOrder_of w (reqBody req)
             (map (enriched_item w) (elements (field (reqBody req) ''items''))))) = Inl cause
      \<longrightarrow>
        post_orders_assemble w req =
          (\<lparr>status = 503,
            body = JObj [(''error'', JStr ''Failed to publish order to queue''),
                         (''details'', JStr cause)]\<rparr>,
           map CatalogGet (map (catalog_url w) (elements (field (reqBody req) ''items'')))
             @ [SqsSend (publish_params w (enrichedOrder_of w (reqBody req)
                  (map (enriched_item w) (elements (field (reqBody req) ''items'')))))]))"
proof (intro conjI impI)
  assume n: "\<not> nullish order"
  show "snd (publishToSQS w order) =
        [\<lparr>QueueUrl = QUEUE_URL w,
          MessageBody = JSON_stringify w order,
          MessageAttributes =
            [(''order_id'', \<lparr>StringValue = field order ''order_id'', DataType = ''String''\<rparr>),
             (''customer_id'', \<lparr>StringValue = field order ''customer_id'', DataType = ''String''\<rparr>)]\<rparr>]"
    by (simp add: publishToSQS_object[OF n] publish_params_def split: sum.split)
  assume "sqs_sendMessage w (publish_params w order) = Inl cause"
  then show "fst (publishToSQS w order) = Inl (Rejection 503 ''Failed to publish order to queue'' cause)"
    by (simp add: publishToSQS_object[OF n])
next
  assume h: "authenticateApiKey w (x_api_key req) = Inr keyData
        \<and> validateOrderPayload w (reqBody req) = Inr []
        \<and> (\<forall>item\<in>set (elements (field (reqBody req) ''items'')). lookup_ok w item)
        \<and> sqs_sendMessage w (publish_params w (enrichedOrder_of w (reqBody req)
             (map (enriched_item w) (elements (field (reqBody req) ''items''))))) = Inl cause"
  then have "post_orders_assemble w req = assemble_handler w (reqBody req)"
    by (simp add: post_orders_assemble_def)
  with h handler_enriched[of w "reqBody req"]
  show "post_orders_assemble w req =
          (\<lparr>status = 503,
            body = JObj [(''error'', JStr ''Failed to publish order to queue''),
                         (''details'', JStr cause)]\<rparr>,
           map CatalogGet (map (catalog_url w) (elements (field (reqBody req) ''items'')))
             @ [SqsSend (publish_params w (enrichedOrder_of w (reqBody req)
                  (map (enriched_item w) (elements (field (reqBody req) ''items'')))))])"
    by simp
qed

theorem publish_once_or_503_witness:
  "fst (post_orders_assemble queue_down_world valid_request) =
     \<lparr>status = 503,
      body = JObj [(''error'', JStr ''Failed to publish order to queue''),
                   (''details'', JStr ''connect ECONNREFUSED 127.0.0.1:4566'')]\<rparr>
   \<and> length (filter (\<lambda>c. case c of SqsSend p \<Rightarrow> True | CatalogGet u \<Rightarrow> False)
        (snd (post_orders_assemble queue_down_world valid_request))) = 1"
proof -
  have a: "authenticateApiKey queue_down_world (x_api_key valid_request)
     = Inr (Own \<lparr>name = ''Test Client'', createdAt = 1735689600000, expiresAt = None\<rparr>)"
    by code_simp
  have v: "validateOrderPayload queue_down_world (reqBody valid_request) = Inr []"
    by code_simp
  have l: "\<forall>item\<in>set (elements (field (reqBody valid_request) ''items'')). lookup_ok queue_down_world item"
    by code_simp
  have p: "sqs_sendMessage queue_down_world (publish_params queue_down_world (enrichedOrder_of queue_down_world (reqBody valid_request)
           (map (enriched_item queue_down_world) (elements (field (reqBody valid_request) ''items'')))))
         = Inl ''connect ECONNREFUSED 127.0.0.1:4566''"
    by (simp add: queue_down_world_def)
  from publish_once_or_503[of _ queue_down_world "''connect ECONNREFUSED 127.0.0.1:4566''" valid_request] a v l p
  have "post_orders_assemble queue_down_world valid_request =
          (\<lparr>status = 503,
            body = JObj [(''error'', JStr ''Failed to publish order to queue''),
                         (''details'', JStr ''connect ECONNREFUSED 127.0.0.1:4566'')]\<rparr>,
           map CatalogGet (map (catalog_url queue_down_world) (elements (field (reqBody valid_request) ''items'')))
             @ [SqsSend (publish_params queue_down_world (enrichedOrder_of queue_down_world (reqBody valid_request)
                  (map (enriched_item queue_down_world) (elements (field (reqBody valid_request) ''items'')))))])"
    by blast
  then show ?thesis by simp
qed

section \<open>Repeated requests\<close>

lemma admitted_valid_request:
  assumes "authenticateApiKey w (x_api_key req) = Inr keyData"
    and "validateOrderPayload w (reqBody req) = Inr []"
    and "\<forall>item\<in>set (elements (field (reqBody req) ''items'')). lookup_ok w item"
    and "sqs_sendMessage w (publish_params w (enrichedOrder_of w (reqBody req)
           (map (enriched_item w) (elements (field (reqBody req) ''items''))))) = Inr messageId"
  shows "fst (post_orders_assemble w req) =
           \<lparr>status = 200,
            body = JObj [(''success'', JBool True),
                         (''order_id'', field (reqBody req) ''order_id''),
                         (''assembly_id'', JStr (uuidv4 w)),
                         (''message'', JStr ''Order assembled and published successfully''),
                         (''sqs_message_id'', JStr messageId)]\<rparr>"
proof -
  have "post_orders_assemble w req = assemble_handler w (reqBody req)"
    by (simp add: post_orders_assemble_def assms(1))
  then show ?thesis
    using handler_enriched[OF assms(2) assms(3)] by (simp add: assms(4))
qed

text \<open>
  Two invocations on the same request, each in its own world (clock, random draw, catalog
  and queue answers), each admitted, valid, enriched and published: both are answered 200
  with the payload's \<open>order_id\<close>, and each carries the identifier made from its own draw,
  whatever the payload. The two identifiers are equal exactly when the two draws agree on
  every bit that the version-4 construction keeps; that the generator never repeats a draw
  is a property of the generator, not of the service.
\<close>

lemma repeated_request_identifiers:
  assumes "authenticateApiKey w1 (x_api_key req) = Inr keyData1"
    and "authenticateApiKey w2 (x_api_key req) = Inr keyData2"
    and "validateOrderPayload w1 (reqBody req) = Inr []"
    and "validateOrderPayload w2 (reqBody req) = Inr []"
    and "\<forall>item\<in>set (elements (field (reqBody req) ''items'')). lookup_ok w1 item"
    and "\<forall>item\<in>set (elements (field (reqBody req) ''items'')). lookup_ok w2 item"
    and "sqs_sendMessage w1 (publish_params w1 (enrichedOrder_of w1 (reqBody req)
           (map (enriched_item w1) (elements (field (reqBody req) ''items''))))) = Inr messageId1"
    and "sqs_sendMessage w2 (publish_params w2 (enrichedOrder_of w2 (reqBody req)
           (map (enriched_item w2) (elements (field (reqBody req) ''items''))))) = Inr messageId2"
  shows "status (fst (post_orders_assemble w1 req)) = 200
       \<and> status (fst (post_orders_assemble w2 req)) = 200
       \<and> field (body (fst (post_orders_assemble w1 req))) ''order_id'' = field (reqBody req) ''order_id''
       \<and> field (body (fst (post_orders_assemble w2 req))) ''order_id'' = field (reqBody req) ''order_id''
       \<and> field (body (fst (post_orders_assemble w1 req))) ''assembly_id'' = JStr (uuidv4 w1)
       \<and> field (body (fst (post_orders_assemble w2 req))) ''assembly_id'' = JStr (uuidv4 w2)
       \<and> (uuidv4 w1 = uuidv4 w2 \<longleftrightarrow> (\<forall>k<16. v4_bytes (rng w1) k = v4_bytes (rng w2) k))"
proof -
  have d: "uuidv4 w1 = uuidv4 w2 \<longleftrightarrow> (\<forall>k<16. v4_bytes (rng w1) k = v4_bytes (rng w2) k)"
  proof
    assume "uuidv4 w1 = uuidv4 w2"
    then show "\<forall>k<16. v4_bytes (rng w1) k = v4_bytes (rng w2) k"
      unfolding uuidv4_def using unsafeStringify_inj by blast
  next
    assume "\<forall>k<16. v4_bytes (rng w1) k = v4_bytes (rng w2) k"
    then show "uuidv4 w1 = uuidv4 w2"
      unfolding uuidv4_def unsafeStringify_def by simp
  qed
  show ?thesis
    unfolding admitted_valid_request[OF assms(1,3,5,7)] admitted_valid_request[OF assms(2,4,6,8)]
    using d by simp
qed

end
